theory Spec2Isabelle
  imports Complex_Main
begin

section \<open>Strings\<close>

text \<open>
  Go strings are byte sequences; they are modelled as \<open>string\<close> (a list of 8-bit characters).
  The helpers below are the functions of Go's \<open>strings\<close> and \<open>fmt\<close> packages that the
  repository calls.
\<close>

text \<open>\<open>strings.HasPrefix(s, prefix)\<close>.\<close>

definition HasPrefix :: "string \<Rightarrow> string \<Rightarrow> bool" where
  "HasPrefix s pre = (take (length pre) s = pre)"

text \<open>\<open>strings.Contains(s, substr)\<close>: some suffix of \<open>s\<close> starts with \<open>substr\<close>.\<close>

fun Contains :: "string \<Rightarrow> string \<Rightarrow> bool" where
  "Contains [] substr = (substr = [])"
| "Contains (c # cs) substr = (HasPrefix (c # cs) substr \<or> Contains cs substr)"

text \<open>
  \<open>strings.ToLower\<close>, on ASCII: the bytes \<open>A\<close> to \<open>Z\<close> are mapped to \<open>a\<close> to \<open>z\<close>,
  every other byte is left as it is.
\<close>

definition ToLower_byte :: "char \<Rightarrow> char" where
  "ToLower_byte c =
     (case map_of (zip ''ABCDEFGHIJKLMNOPQRSTUVWXYZ'' ''abcdefghijklmnopqrstuvwxyz'') c of
        Some l \<Rightarrow> l
      | None \<Rightarrow> c)"

definition ToLower :: "string \<Rightarrow> string" where
  "ToLower s = map ToLower_byte s"

text \<open>\<open>strings.ReplaceAll(s, old, "")\<close> for a one-byte \<open>old\<close>: every such byte is dropped.\<close>

definition ReplaceAll_empty :: "string \<Rightarrow> char \<Rightarrow> string" where
  "ReplaceAll_empty s old = filter (\<lambda>c. c \<noteq> old) s"

text \<open>The verb \<open>%d\<close> of \<open>fmt\<close>: an integer in base 10.\<close>

fun show_nat :: "nat \<Rightarrow> string" where
  "show_nat n =
     (if n < 10 then [''0123456789'' ! n]
      else show_nat (n div 10) @ [''0123456789'' ! (n mod 10)])"

declare show_nat.simps [simp del]

definition show_int :: "int \<Rightarrow> string" where
  "show_int i = (if i < 0 then CHR ''-'' # show_nat (nat (- i)) else show_nat (nat i))"

section \<open>The message model and template rendering (package model)\<close>

text \<open>
  The data bag is a Go \<open>map[string]interface{}\<close>. The dynamic values the embedding covers
  are strings, integers, booleans and the nil interface; \<open>Sprintf_v\<close> is
  \<open>fmt.Sprintf("%v", value)\<close> on them.
\<close>

datatype gvalue = VString string | VInt int | VBool bool | VNil

fun Sprintf_v :: "gvalue \<Rightarrow> string" where
  "Sprintf_v (VString s) = s"
| "Sprintf_v (VInt i) = show_int i"
| "Sprintf_v (VBool b) = (if b then ''true'' else ''false'')"
| "Sprintf_v VNil = ''<nil>''"

type_synonym databag = "string \<rightharpoonup> gvalue"

record Message =
  From :: string
  To :: string
  By :: string

text \<open>
  The regular expression \<open>{([^{}]+)}\<close> of \<open>Render\<close>, used through
  \<open>ReplaceAllStringFunc\<close>: scanning from the left, an opening brace followed by a
  non-empty run of bytes that are not braces and then a closing brace is a match; the match
  is replaced by \<open>repl\<close> of its text and the scan goes on behind it. An opening brace that
  starts no match is copied and the scan goes on at the next byte.
\<close>

definition not_brace :: "char \<Rightarrow> bool" where
  "not_brace c = (c \<noteq> CHR ''{'' \<and> c \<noteq> CHR ''}'')"

function ReplaceAllStringFunc :: "string \<Rightarrow> (string \<Rightarrow> string) \<Rightarrow> string" where
  "ReplaceAllStringFunc [] repl = []"
| "ReplaceAllStringFunc (c # cs) repl =
     (if c = CHR ''{'' then
        (case dropWhile not_brace cs of
           [] \<Rightarrow> c # ReplaceAllStringFunc cs repl
         | r # after \<Rightarrow>
             if r = CHR ''}'' \<and> takeWhile not_brace cs \<noteq> []
             then repl (c # takeWhile not_brace cs @ [r]) @ ReplaceAllStringFunc after repl
             else c # ReplaceAllStringFunc cs repl)
      else c # ReplaceAllStringFunc cs repl)"
  by pat_completeness auto
termination
proof (relation "measure (\<lambda>(s, repl). length s)")
  show "wf (measure (\<lambda>(s, repl). length s))" by simp
next
  fix c :: char and cs :: string and repl :: "string \<Rightarrow> string"
  show "((cs, repl), (c # cs, repl)) \<in> measure (\<lambda>(s, repl). length s)" by simp
next
  fix c :: char and cs :: string and repl :: "string \<Rightarrow> string" and r :: char and after :: string
  assume "dropWhile not_brace cs = r # after"
  then have "length (r # after) \<le> length cs"
    using length_dropWhile_le [of not_brace cs] by simp
  then show "((after, repl), (c # cs, repl)) \<in> measure (\<lambda>(s, repl). length s)" by simp
next
  fix c :: char and cs :: string and repl :: "string \<Rightarrow> string"
  show "((cs, repl), (c # cs, repl)) \<in> measure (\<lambda>(s, repl). length s)" by simp
next
  fix c :: char and cs :: string and repl :: "string \<Rightarrow> string"
  show "((cs, repl), (c # cs, repl)) \<in> measure (\<lambda>(s, repl). length s)" by simp
qed

text \<open>
  \<open>Message.Render(template, data)\<close>. A Go map is a reference: the entries that \<open>Render\<close>
  stores are stored in the caller's map. The data bag is \<open>None\<close> for a nil map, and the
  function returns the rendered text together with the caller's map as it is after the
  call (a nil map stays nil: the entries go to a fresh map that is local to the call).
\<close>

definition lookup_placeholder :: "databag \<Rightarrow> string \<Rightarrow> string" where
  "lookup_placeholder data placeholder =
     (let key = butlast (tl placeholder) in
      case data key of
        Some v \<Rightarrow> Sprintf_v v
      | None \<Rightarrow> placeholder)"

definition add_fields :: "Message \<Rightarrow> databag \<Rightarrow> databag" where
  "add_fields m data =
     (let d1 = (if data ''from'' = None then data(''from'' \<mapsto> VString (From m)) else data);
          d2 = (if d1 ''to'' = None then d1(''to'' \<mapsto> VString (To m)) else d1);
          d3 = (if d2 ''by'' = None then d2(''by'' \<mapsto> VString (By m)) else d2)
      in d3)"

definition Render :: "Message \<Rightarrow> string \<Rightarrow> databag option \<Rightarrow> string \<times> databag option" where
  "Render m template data =
     (if template = [] then ([], data)
      else
        (let d = add_fields m (case data of None \<Rightarrow> Map.empty | Some d0 \<Rightarrow> d0)
         in (ReplaceAllStringFunc template (lookup_placeholder d),
             case data of None \<Rightarrow> None | Some d0 \<Rightarrow> Some d)))"

section \<open>Errors\<close>

text \<open>
  A Go \<open>error\<close> is an interface value: \<open>go_error option\<close>, \<open>None\<close> for nil. The
  constructors are the error values that the repository creates or inspects:
  \<^item> \<open>ErrorString msg\<close>: a value of \<open>errors.New(msg)\<close> or of \<open>fmt.Errorf\<close> without \<open>%w\<close>;
  \<^item> \<open>Canceled\<close>, \<open>DeadlineExceeded\<close>: the variables \<open>context.Canceled\<close> and
    \<open>context.DeadlineExceeded\<close>;
  \<^item> \<open>ErrMaxAttemptsReached\<close>: the variable of package retry;
  \<^item> \<open>OpError op err\<close>: a \<open>*net.OpError\<close> with the fields \<open>Op\<close> and \<open>Err\<close> set;
  \<^item> \<open>URLError op url err\<close>: a \<open>*url.Error\<close>;
  \<^item> \<open>HTTPError code message\<close>: a \<open>*retry.HTTPError\<close>;
  \<^item> \<open>ValidationError field message\<close>: a \<open>*model.ValidationError\<close>;
  \<^item> \<open>WrapError msg err\<close>: the value of a \<open>fmt.Errorf\<close> call with one \<open>%w\<close> verb, whose
    text is \<open>msg\<close> and which unwraps to \<open>err\<close>.
\<close>

datatype go_error =
    ErrorString string
  | Canceled
  | DeadlineExceeded
  | ErrMaxAttemptsReached
  | OpError string go_error
  | URLError string string go_error
  | HTTPError int string
  | ValidationError string string
  | WrapError string go_error

text \<open>
  The method \<open>Error()\<close> of each value. For a \<open>*url.Error\<close> the URL is put between
  double quotes as it is, which is what the verb \<open>%q\<close> gives for a URL of printable ASCII
  without quotes and backslashes.
\<close>

fun Error :: "go_error \<Rightarrow> string" where
  "Error (ErrorString msg) = msg"
| "Error Canceled = ''context canceled''"
| "Error DeadlineExceeded = ''context deadline exceeded''"
| "Error ErrMaxAttemptsReached = ''maximum retry attempts reached''"
| "Error (OpError op err) = op @ '': '' @ Error err"
| "Error (URLError op url err) = op @ '' '' @ [CHR 0x22] @ url @ [CHR 0x22] @ '': '' @ Error err"
| "Error (HTTPError code message) =
     ''HTTP error: status code: '' @ show_int code @ '', message: '' @ message"
| "Error (ValidationError field message) = ''validation error: '' @ field @ '' - '' @ message"
| "Error (WrapError msg err) = msg"

text \<open>
  The chain that \<open>errors.Is\<close> and \<open>errors.As\<close> walk: the error itself, then what its
  \<open>Unwrap()\<close> method returns, and so on. \<open>*net.OpError\<close>, \<open>*url.Error\<close> and the value of
  \<open>fmt.Errorf\<close> with \<open>%w\<close> have that method.
\<close>

fun chain :: "go_error \<Rightarrow> go_error list" where
  "chain (OpError op err) = OpError op err # chain err"
| "chain (URLError op url err) = URLError op url err # chain err"
| "chain (WrapError msg err) = WrapError msg err # chain err"
| "chain e = [e]"

text \<open>\<open>errors.Is(err, target)\<close> for a target that is one of the package-level variables.\<close>

definition errors_Is :: "go_error \<Rightarrow> go_error \<Rightarrow> bool" where
  "errors_Is err target = (target \<in> set (chain err))"

text \<open>
  \<open>errors.As(err, &netErr)\<close> with \<open>netErr\<close> of the interface type \<open>net.Error\<close>: it holds
  when a value of the chain has the methods \<open>Error\<close>, \<open>Timeout\<close> and \<open>Temporary\<close>. In Go's
  standard library those are declared by \<open>*net.OpError\<close>, by \<open>*url.Error\<close> and by the type
  of \<open>context.DeadlineExceeded\<close>; the other values here have only \<open>Error\<close>.
\<close>

fun is_net_Error :: "go_error \<Rightarrow> bool" where
  "is_net_Error (OpError op err) = True"
| "is_net_Error (URLError op url err) = True"
| "is_net_Error DeadlineExceeded = True"
| "is_net_Error e = False"

definition errors_As_net_Error :: "go_error \<Rightarrow> bool" where
  "errors_As_net_Error err = list_ex is_net_Error (chain err)"

fun is_url_Error :: "go_error \<Rightarrow> bool" where
  "is_url_Error (URLError op url err) = True"
| "is_url_Error e = False"

definition errors_As_url_Error :: "go_error \<Rightarrow> bool" where
  "errors_As_url_Error err = list_ex is_url_Error (chain err)"

text \<open>\<open>errors.As(err, &httpErr)\<close>: the status code of the first \<open>*HTTPError\<close> of the chain.\<close>

fun errors_As_HTTPError :: "go_error list \<Rightarrow> int option" where
  "errors_As_HTTPError [] = None"
| "errors_As_HTTPError (HTTPError code message # es) = Some code"
| "errors_As_HTTPError (e # es) = errors_As_HTTPError es"

section \<open>The retry engine (package retry)\<close>

text \<open>\<open>IsRetriable(err)\<close>, the default classifier, check by check in the order of the source.\<close>

definition IsRetriable :: "go_error option \<Rightarrow> bool" where
  "IsRetriable e =
     (case e of
        None \<Rightarrow> False
      | Some err \<Rightarrow>
          if errors_As_net_Error err then True
          else if errors_Is err DeadlineExceeded \<or> errors_Is err Canceled then False
          else if errors_As_url_Error err then True
          else
            (let errStr = Error err in
             if Contains errStr ''status code: 5'' \<or>
                Contains errStr ''500'' \<or>
                Contains errStr ''502'' \<or>
                Contains errStr ''503'' \<or>
                Contains errStr ''504''
             then True
             else if Contains (ToLower errStr) ''timeout'' \<or>
                Contains (ToLower errStr) ''connection refused'' \<or>
                Contains (ToLower errStr) ''connection reset'' \<or>
                Contains (ToLower errStr) ''temporary'' \<or>
                Contains (ToLower errStr) ''too many requests'' \<or>
                Contains (ToLower errStr) ''service unavailable''
             then True
             else
               (case errors_As_HTTPError (chain err) of
                  Some code \<Rightarrow> code \<ge> 500 \<or> code = 429
                | None \<Rightarrow> False)))"

text \<open>
  \<open>Config\<close> of package retry. A \<open>time.Duration\<close> is a number of nanoseconds. The
  multiplier is a \<open>float64\<close> in the source; here it is a rational number and the product
  \<open>float64(delay) * config.Multiplier\<close> is exact, which is what the source computes
  whenever that product is a float64 (a multiplier of 2.0 and delays below \<open>2^52\<close>
  nanoseconds, for one). The conversion back to \<open>time.Duration\<close> drops the fraction.
\<close>

record Config =
  MaxAttempts :: int
  InitialDelay :: int
  MaxDelay :: int
  Multiplier :: rat
  RetriableErrors :: "(go_error option \<Rightarrow> bool) option"

definition Millisecond :: int where
  "Millisecond = 1000000"

definition Second :: int where
  "Second = 1000000000"

definition DefaultConfig :: Config where
  "DefaultConfig =
     \<lparr>MaxAttempts = 3, InitialDelay = 500 * Millisecond, MaxDelay = 30 * Second,
      Multiplier = 2, RetriableErrors = None\<rparr>"

definition scale_Duration :: "int \<Rightarrow> rat \<Rightarrow> int" where
  "scale_Duration delay multiplier =
     (let p = of_int delay * multiplier in if 0 \<le> p then \<lfloor>p\<rfloor> else \<lceil>p\<rceil>)"

text \<open>\<open>fmt.Errorf("%w: %v", ErrMaxAttemptsReached, err)\<close>.\<close>

definition Errorf_max_attempts :: "go_error \<Rightarrow> go_error" where
  "Errorf_max_attempts err =
     WrapError (Error ErrMaxAttemptsReached @ '': '' @ Error err) ErrMaxAttemptsReached"

text \<open>
  The context that \<open>Do\<close> receives is seen only in the \<open>select\<close> that follows a failed
  attempt. A \<open>Context\<close> says, for the attempt number at which \<open>Do\<close> waits, which case of
  the \<open>select\<close> is taken: \<open>Some e\<close> when \<open>ctx.Done()\<close> is received first, with \<open>e\<close> the
  value of \<open>ctx.Err()\<close>, and \<open>None\<close> when the timer fires first.
\<close>

datatype ctx_err = CtxCanceled | CtxDeadlineExceeded

fun ctx_Err :: "ctx_err \<Rightarrow> go_error" where
  "ctx_Err CtxCanceled = Canceled"
| "ctx_Err CtxDeadlineExceeded = DeadlineExceeded"

type_synonym Context = "int \<Rightarrow> ctx_err option"

text \<open>
  The operation \<open>fn\<close> is a closure with effects: it is a function from the state it works
  on to its result and the new state. A \<open>run\<close> is that state together with what a test of
  \<open>Do\<close> observes: the number of times \<open>fn\<close> was invoked and the durations of the timers
  that \<open>Do\<close> started, in order.
\<close>

record 's run =
  world :: 's
  calls :: nat
  waits :: "int list"

definition classifier :: "Config \<Rightarrow> go_error option \<Rightarrow> bool" where
  "classifier config =
     (case RetriableErrors config of None \<Rightarrow> IsRetriable | Some f \<Rightarrow> f)"

text \<open>
  The retry loop of \<open>Do\<close>, from the iteration with the loop variable \<open>attempt\<close>, the
  local \<open>delay\<close> and the local \<open>err\<close>.
\<close>

function do_loop ::
  "Context \<Rightarrow> Config \<Rightarrow> ('s \<Rightarrow> go_error option \<times> 's) \<Rightarrow> int \<Rightarrow> int \<Rightarrow> go_error option \<Rightarrow>
   's run \<Rightarrow> go_error option \<times> 's run"
where
  "do_loop ctx config fn attempt delay err st =
     (if attempt < MaxAttempts config then
        (case fn (world st) of
           (None, w) \<Rightarrow> (None, st\<lparr>world := w, calls := calls st + 1\<rparr>)
         | (Some e, w) \<Rightarrow>
             if attempt = MaxAttempts config - 1 \<or> \<not> classifier config (Some e) then
               (if attempt = MaxAttempts config - 1
                then (Some (Errorf_max_attempts e), st\<lparr>world := w, calls := calls st + 1\<rparr>)
                else (Some e, st\<lparr>world := w, calls := calls st + 1\<rparr>))
             else
               (let nextDelay = scale_Duration delay (Multiplier config);
                    nextDelay = (if nextDelay > MaxDelay config then MaxDelay config else nextDelay);
                    st' = st\<lparr>world := w, calls := calls st + 1, waits := waits st @ [nextDelay]\<rparr>
                in case ctx attempt of
                     Some ce \<Rightarrow> (Some (ctx_Err ce), st')
                   | None \<Rightarrow> do_loop ctx config fn (attempt + 1) nextDelay (Some e) st'))
      else (err, st))"
  by pat_completeness auto
termination
  by (relation "measure (\<lambda>(ctx, config, fn, attempt, delay, err, st). nat (MaxAttempts config - attempt))")
     auto

declare do_loop.simps [simp del]

text \<open>\<open>Do(ctx, config, fn)\<close>, with \<open>fn\<close> started in the state \<open>s\<close>.\<close>

definition Do ::
  "Context \<Rightarrow> Config \<Rightarrow> ('s \<Rightarrow> go_error option \<times> 's) \<Rightarrow> 's \<Rightarrow> go_error option \<times> 's run"
where
  "Do ctx config fn s =
     (if MaxAttempts config \<le> 0
      then (Some (ErrorString ''retry attempts must be greater than 0''),
            \<lparr>world = s, calls = 0, waits = []\<rparr>)
      else do_loop ctx config fn 0 (InitialDelay config) None \<lparr>world = s, calls = 0, waits = []\<rparr>)"

text \<open>
  The state in which the operation finds itself at its call number \<open>k\<close> (counted from 0)
  when it was started in the state \<open>s\<close>: each call leaves the state to the next one.
\<close>

primrec state_after :: "('s \<Rightarrow> go_error option \<times> 's) \<Rightarrow> nat \<Rightarrow> 's \<Rightarrow> 's" where
  "state_after fn 0 s = s"
| "state_after fn (Suc k) s = state_after fn k (snd (fn s))"

section \<open>Requests, responses and providers (package model)\<close>

text \<open>
  \<open>SendSMSRequest\<close> and \<open>SendVoiceRequest\<close> have the same four fields, and so have parts
  of the two responses; a field of the record declared first is written with the record's
  name before it (\<open>SendSMSRequest.Message\<close>). A \<open>time.Time\<close> is a number of nanoseconds
  from the zero time, a \<open>float64\<close> cost a rational number.
\<close>

record SendSMSRequest =
  Message :: Message
  Template :: string
  Data :: "databag option"
  Options :: "databag option"

record SendVoiceRequest =
  Message :: Message
  Template :: string
  Data :: "databag option"
  Options :: "databag option"

record SendSMSResponse =
  MessageID :: string
  Status :: string
  Provider :: string
  SentAt :: int
  Cost :: rat
  Currency :: string
  ProviderResponse :: "databag option"

record SendVoiceResponse =
  CallID :: string
  Status :: string
  Provider :: string
  StartedAt :: int
  EndedAt :: "int option"
  Duration :: int
  Cost :: rat
  Currency :: string
  ProviderResponse :: "databag option"

text \<open>The zero values \<open>model.SendSMSResponse{}\<close> and \<open>model.SendVoiceResponse{}\<close>.\<close>

definition zero_SendSMSResponse :: SendSMSResponse where
  "zero_SendSMSResponse =
     \<lparr>MessageID = [], SendSMSResponse.Status = [], SendSMSResponse.Provider = [], SentAt = 0,
      SendSMSResponse.Cost = 0, SendSMSResponse.Currency = [],
      SendSMSResponse.ProviderResponse = None\<rparr>"

definition zero_SendVoiceResponse :: SendVoiceResponse where
  "zero_SendVoiceResponse =
     \<lparr>CallID = [], SendVoiceResponse.Status = [], SendVoiceResponse.Provider = [],
      StartedAt = 0, EndedAt = None, Duration = 0, SendVoiceResponse.Cost = 0,
      SendVoiceResponse.Currency = [], SendVoiceResponse.ProviderResponse = None\<rparr>"

text \<open>The regular expression \<open>^\d+$\<close>: a non-empty string of ASCII digits.\<close>

definition all_digits :: "string \<Rightarrow> bool" where
  "all_digits s = (s \<noteq> [] \<and> list_all (\<lambda>c. c \<in> set ''0123456789'') s)"

definition ValidatePhoneNumber :: "string \<Rightarrow> bool" where
  "ValidatePhoneNumber phoneNumber =
     (let cleaned = ReplaceAll_empty phoneNumber CHR '' '';
          cleaned = ReplaceAll_empty cleaned CHR ''-'';
          cleaned = ReplaceAll_empty cleaned CHR ''('';
          cleaned = ReplaceAll_empty cleaned CHR '')''
      in if HasPrefix cleaned ''+''
         then (let digits = drop 1 cleaned in length digits \<ge> 8 \<and> all_digits digits)
         else length cleaned \<ge> 8 \<and> all_digits cleaned)"

text \<open>The two \<open>Validate\<close> methods; both check the message of the request only.\<close>

definition Validate_Message :: "Message \<Rightarrow> go_error option" where
  "Validate_Message msg =
     (if \<not> ValidatePhoneNumber (To msg)
      then Some (ValidationError ''to'' ''invalid recipient phone number'')
      else if From msg = []
      then Some (ValidationError ''from'' ''sender identifier cannot be empty'')
      else None)"

definition Validate_SMS :: "SendSMSRequest \<Rightarrow> go_error option" where
  "Validate_SMS r = Validate_Message (SendSMSRequest.Message r)"

definition Validate_Voice :: "SendVoiceRequest \<Rightarrow> go_error option" where
  "Validate_Voice r = Validate_Message (SendVoiceRequest.Message r)"

text \<open>
  A value of the interface \<open>model.Provider\<close>: its name and its two operations. A provider
  call has effects outside the program, so each operation is a function from the request and
  the state of the outside world (of any type \<open>'w\<close>) to its two results and the new state.
\<close>

record 'w Provider =
  Name :: string
  SendSMS :: "SendSMSRequest \<Rightarrow> 'w \<Rightarrow> (SendSMSResponse \<times> go_error option) \<times> 'w"
  SendVoiceCall :: "SendVoiceRequest \<Rightarrow> 'w \<Rightarrow> (SendVoiceResponse \<times> go_error option) \<times> 'w"

section \<open>The module (package sms)\<close>

text \<open>
  The fields of \<open>config.Config\<close> (the provider-specific settings are left out; the module
  does not read them).
\<close>

record config_Config =
  DefaultProvider :: string
  HTTPTimeout :: int
  RetryAttempts :: int
  RetryDelay :: int
  SMSTemplate :: string
  VoiceTemplate :: string

record 'w Module =
  config :: config_Config
  providers :: "string \<rightharpoonup> 'w Provider"
  activeProvider :: "'w Provider option"

text \<open>\<open>NewModule\<close>, from the result of \<open>config.LoadConfig(configFile)\<close>.\<close>

definition NewModule :: "go_error + config_Config \<Rightarrow> go_error + 'w Module" where
  "NewModule loaded =
     (case loaded of
        Inl err \<Rightarrow> Inl (WrapError (''failed to load configuration: '' @ Error err) err)
      | Inr cfg \<Rightarrow> Inr \<lparr>config = cfg, providers = Map.empty, activeProvider = None\<rparr>)"

text \<open>
  The methods that change the module return the error and the module as it is after the
  call.
\<close>

definition AddProvider :: "'w Module \<Rightarrow> 'w Provider \<Rightarrow> go_error option \<times> 'w Module" where
  "AddProvider m provider =
     (let providerName = Name provider in
      if providers m providerName \<noteq> None
      then (Some (ErrorString (''provider with name '' @ [CHR 0x27] @ providerName @ [CHR 0x27] @
                    '' is already registered'')), m)
      else
        (let m1 = m\<lparr>providers := (providers m)(providerName \<mapsto> provider)\<rparr>;
             m2 = (if activeProvider m1 = None \<or> DefaultProvider (config m1) = providerName
                   then m1\<lparr>activeProvider := Some provider\<rparr> else m1)
         in (None, m2)))"

definition SwitchProvider :: "'w Module \<Rightarrow> string \<Rightarrow> go_error option \<times> 'w Module" where
  "SwitchProvider m name =
     (case providers m name of
        None \<Rightarrow> (Some (ErrorString (''provider '' @ [CHR 0x27] @ name @ [CHR 0x27] @ '' not found'')), m)
      | Some provider \<Rightarrow> (None, m\<lparr>activeProvider := Some provider\<rparr>))"

definition GetProvider :: "'w Module \<Rightarrow> string \<Rightarrow> go_error + 'w Provider" where
  "GetProvider m name =
     (case providers m name of
        None \<Rightarrow> Inl (ErrorString (''provider '' @ [CHR 0x27] @ name @ [CHR 0x27] @ '' not found''))
      | Some provider \<Rightarrow> Inr provider)"

definition GetActiveProvider :: "'w Module \<Rightarrow> go_error + 'w Provider" where
  "GetActiveProvider m =
     (case activeProvider m of
        None \<Rightarrow> Inl (ErrorString ''no active provider set'')
      | Some provider \<Rightarrow> Inr provider)"

text \<open>The retry configuration that both send methods build.\<close>

definition retryConfig :: "'w Module \<Rightarrow> Config" where
  "retryConfig m =
     \<lparr>MaxAttempts = RetryAttempts (config m), InitialDelay = RetryDelay (config m),
      MaxDelay = 30 * Second, Multiplier = 2, RetriableErrors = None\<rparr>"

text \<open>
  \<open>Module.SendSMS(ctx, req)\<close>, started in the state \<open>w\<close> of the outside world. The closure
  handed to \<open>retry.Do\<close> assigns the captured variable \<open>response\<close>, so the state that \<open>Do\<close>
  threads through the attempts is that variable together with the outside world.
\<close>

definition Module_SendSMS ::
  "Context \<Rightarrow> 'w Module \<Rightarrow> SendSMSRequest \<Rightarrow> 'w \<Rightarrow> (SendSMSResponse \<times> go_error option) \<times> 'w"
where
  "Module_SendSMS ctx m req w =
     (case activeProvider m of
        None \<Rightarrow> ((zero_SendSMSResponse, Some (ErrorString ''no active provider set'')), w)
      | Some p \<Rightarrow>
          (case Validate_SMS req of
             Some err \<Rightarrow> ((zero_SendSMSResponse, Some err), w)
           | None \<Rightarrow>
               (case Do ctx (retryConfig m)
                       (\<lambda>(response, w0). case Provider.SendSMS p req w0 of
                                            ((response', err), w1) \<Rightarrow> (err, (response', w1)))
                       (zero_SendSMSResponse, w) of
                  (Some err, r) \<Rightarrow>
                    ((zero_SendSMSResponse,
                      Some (WrapError (''failed to send SMS after '' @
                                       show_int (RetryAttempts (config m)) @
                                       '' attempts: '' @ Error err) err)),
                     snd (world r))
                | (None, r) \<Rightarrow>
                    (let response = fst (world r);
                         response = (if SendSMSResponse.Provider response = []
                                     then response\<lparr>SendSMSResponse.Provider := Name p\<rparr>
                                     else response)
                     in ((response, None), snd (world r))))))"

definition Module_SendVoiceCall ::
  "Context \<Rightarrow> 'w Module \<Rightarrow> SendVoiceRequest \<Rightarrow> 'w \<Rightarrow> (SendVoiceResponse \<times> go_error option) \<times> 'w"
where
  "Module_SendVoiceCall ctx m req w =
     (case activeProvider m of
        None \<Rightarrow> ((zero_SendVoiceResponse, Some (ErrorString ''no active provider set'')), w)
      | Some p \<Rightarrow>
          (case Validate_Voice req of
             Some err \<Rightarrow> ((zero_SendVoiceResponse, Some err), w)
           | None \<Rightarrow>
               (case Do ctx (retryConfig m)
                       (\<lambda>(response, w0). case Provider.SendVoiceCall p req w0 of
                                            ((response', err), w1) \<Rightarrow> (err, (response', w1)))
                       (zero_SendVoiceResponse, w) of
                  (Some err, r) \<Rightarrow>
                    ((zero_SendVoiceResponse,
                      Some (WrapError (''failed to send voice call after '' @
                                       show_int (RetryAttempts (config m)) @
                                       '' attempts: '' @ Error err) err)),
                     snd (world r))
                | (None, r) \<Rightarrow>
                    (let response = fst (world r);
                         response = (if SendVoiceResponse.Provider response = []
                                     then response\<lparr>SendVoiceResponse.Provider := Name p\<rparr>
                                     else response)
                     in ((response, None), snd (world r))))))"

text \<open>
  The closures that \<open>SendSMS\<close> and \<open>SendVoiceCall\<close> hand to \<open>retry.Do\<close>, by name: one
  attempt is one call of the provider, which assigns the captured response.
\<close>

definition SendSMS_attempt ::
  "'w Provider \<Rightarrow> SendSMSRequest \<Rightarrow> SendSMSResponse \<times> 'w \<Rightarrow>
   go_error option \<times> (SendSMSResponse \<times> 'w)"
where
  "SendSMS_attempt p req =
     (\<lambda>(response, w0). case Provider.SendSMS p req w0 of
                          ((response', err), w1) \<Rightarrow> (err, (response', w1)))"

definition SendVoiceCall_attempt ::
  "'w Provider \<Rightarrow> SendVoiceRequest \<Rightarrow> SendVoiceResponse \<times> 'w \<Rightarrow>
   go_error option \<times> (SendVoiceResponse \<times> 'w)"
where
  "SendVoiceCall_attempt p req =
     (\<lambda>(response, w0). case Provider.SendVoiceCall p req w0 of
                          ((response', err), w1) \<Rightarrow> (err, (response', w1)))"

text \<open>
  A sequence of \<open>AddProvider\<close> and \<open>SwitchProvider\<close> calls on a module; a call that returns
  an error is followed by the next call, as in a caller that goes on after the error.
\<close>

datatype 'w registry_call = Register "'w Provider" | Switch string

fun registry_calls :: "'w Module \<Rightarrow> 'w registry_call list \<Rightarrow> 'w Module" where
  "registry_calls m [] = m"
| "registry_calls m (Register p # cs) = registry_calls (snd (AddProvider m p)) cs"
| "registry_calls m (Switch name # cs) = registry_calls (snd (SwitchProvider m name)) cs"

section \<open>Registry invariants\<close>

text \<open>
  The active provider, when one is set, is the provider that the registry binds to its
  name.
\<close>

definition active_registered :: "'w Module \<Rightarrow> bool" where
  "active_registered m =
     (case activeProvider m of
        None \<Rightarrow> True
      | Some p \<Rightarrow> providers m (Name p) = Some p)"

text \<open>Every provider is registered under its own name.\<close>

definition keys_are_names :: "'w Module \<Rightarrow> bool" where
  "keys_are_names m = (\<forall>k p. providers m k = Some p \<longrightarrow> Name p = k)"

section \<open>Inputs of the repository's tests\<close>

text \<open>The message, the data bags and the templates of \<open>TestTemplateRendering\<close>.\<close>

definition test_message :: Message where
  "test_message = \<lparr>From = ''Sender'', To = ''+1234567890'', By = ''TestApp''\<rparr>"

definition override_data :: databag where
  "override_data =
     [''from'' \<mapsto> VString ''OtherSender'', ''to'' \<mapsto> VString ''OtherRecipient'',
      ''by'' \<mapsto> VString ''OtherApp'']"

definition partial_data :: databag where
  "partial_data = [''to'' \<mapsto> VString ''OtherRecipient'', ''code'' \<mapsto> VInt 7]"

text \<open>
  The contexts and operations of \<open>TestDo\<close>: a context that is never done, one whose
  deadline has passed whenever \<open>Do\<close> waits, one that is cancelled during the second wait;
  an operation that counts its invocations and fails with the same error every time.
\<close>

definition never_done :: Context where
  "never_done attempt = None"

definition deadline_exceeded :: Context where
  "deadline_exceeded attempt = Some CtxDeadlineExceeded"

definition cancelled_in_second_wait :: Context where
  "cancelled_in_second_wait attempt = (if attempt = 1 then Some CtxCanceled else None)"

definition always_fails :: "go_error \<Rightarrow> nat \<Rightarrow> go_error option \<times> nat" where
  "always_fails e n = (Some e, Suc n)"

definition test_retry_config :: Config where
  "test_retry_config = DefaultConfig\<lparr>InitialDelay := 100 * Millisecond\<rparr>"

text \<open>A module configuration, providers that fail with a given error, and requests.\<close>

definition test_config :: config_Config where
  "test_config =
     \<lparr>DefaultProvider = ''esms'', HTTPTimeout = 10 * Second, RetryAttempts = 3,
      RetryDelay = 500 * Millisecond, SMSTemplate = ''Your message is {message}'',
      VoiceTemplate = ''Your message is {message}''\<rparr>"

definition failing_provider :: "string \<Rightarrow> go_error \<Rightarrow> nat Provider" where
  "failing_provider name e =
     \<lparr>Name = name,
      SendSMS = (\<lambda>req n. ((zero_SendSMSResponse, Some e), Suc n)),
      SendVoiceCall = (\<lambda>req n. ((zero_SendVoiceResponse, Some e), Suc n))\<rparr>"

definition twilio_first :: "nat Provider" where
  "twilio_first = failing_provider ''twilio'' (HTTPError 400 ''Bad request'')"

definition twilio_second :: "nat Provider" where
  "twilio_second = failing_provider ''twilio'' (HTTPError 500 ''Server error'')"

definition esms_provider :: "nat Provider" where
  "esms_provider = failing_provider ''esms'' (HTTPError 500 ''Server error'')"

definition empty_module :: "nat Module" where
  "empty_module = \<lparr>config = test_config, providers = Map.empty, activeProvider = None\<rparr>"

definition one_provider :: "nat Module" where
  "one_provider =
     \<lparr>config = test_config, providers = [''twilio'' \<mapsto> twilio_first],
      activeProvider = Some twilio_first\<rparr>"

definition single_attempt :: "nat Module" where
  "single_attempt = one_provider\<lparr>config := test_config\<lparr>RetryAttempts := 1\<rparr>\<rparr>"

text \<open>
  A provider whose first call fails with the status 500 and every later call with the
  status 400, and a module that has it as its active provider.
\<close>

definition flaky_provider :: "nat Provider" where
  "flaky_provider =
     \<lparr>Name = ''flaky'',
      SendSMS = (\<lambda>req n. ((zero_SendSMSResponse,
                             Some (if n = 0 then HTTPError 500 ''Server error''
                                   else HTTPError 400 ''Bad request'')), Suc n)),
      SendVoiceCall = (\<lambda>req n. ((zero_SendVoiceResponse,
                             Some (if n = 0 then HTTPError 500 ''Server error''
                                   else HTTPError 400 ''Bad request'')), Suc n))\<rparr>"

definition flaky_module :: "nat Module" where
  "flaky_module =
     \<lparr>config = test_config, providers = [''flaky'' \<mapsto> flaky_provider],
      activeProvider = Some flaky_provider\<rparr>"

definition test_calls :: "nat registry_call list" where
  "test_calls =
     [Register twilio_first, Switch ''speedsms'', Register esms_provider,
      Register twilio_second, Switch ''twilio'']"

definition sms_request :: SendSMSRequest where
  "sms_request =
     \<lparr>SendSMSRequest.Message = test_message, SendSMSRequest.Template = [],
      SendSMSRequest.Data = None, SendSMSRequest.Options = None\<rparr>"

definition voice_request :: SendVoiceRequest where
  "voice_request =
     \<lparr>SendVoiceRequest.Message = test_message, SendVoiceRequest.Template = [],
      SendVoiceRequest.Data = None, SendVoiceRequest.Options = None\<rparr>"

section \<open>Facts used by several proofs\<close>

lemmas string_eval = HasPrefix_def ToLower_def ToLower_byte_def show_int_def show_nat.simps

lemmas classify_eval = IsRetriable_def errors_As_net_Error_def errors_Is_def
  errors_As_url_Error_def string_eval

lemma http500_retriable: "IsRetriable (Some (HTTPError 500 ''Server error''))"
  by (simp add: classify_eval)

lemma http400_not_retriable: "\<not> IsRetriable (Some (HTTPError 400 ''Bad request''))"
  by (simp add: classify_eval)

lemmas Do_eval = Do_def do_loop.simps classifier_def scale_Duration_def
  Errorf_max_attempts_def DefaultConfig_def test_retry_config_def Millisecond_def Second_def
  never_done_def deadline_exceeded_def cancelled_in_second_wait_def always_fails_def
  http500_retriable http400_not_retriable string_eval

text \<open>The table of \<open>TestIsRetriable\<close>, row by row, as the model evaluates it.\<close>

lemma IsRetriable_table:
  "IsRetriable None = False"
  "IsRetriable (Some (OpError ''dial'' (ErrorString ''connection refused''))) = True"
  "IsRetriable (Some Canceled) = False"
  "IsRetriable (Some (HTTPError 500 ''Internal server error'')) = True"
  "IsRetriable (Some (HTTPError 429 ''Too many requests'')) = True"
  "IsRetriable (Some (HTTPError 400 ''Bad request'')) = False"
  "IsRetriable (Some (HTTPError 401 ''Unauthorized'')) = False"
  "IsRetriable (Some (ErrorString ''connection refused'')) = True"
  "IsRetriable (Some (ErrorString ''some error'')) = False"
  by (simp_all add: classify_eval)

subsection \<open>The retry loop\<close>

lemma do_loop_first_not_retriable:
  assumes "attempt < MaxAttempts cfg" and "fn (world st) = (Some e, w)"
    and "\<not> classifier cfg (Some e)"
  shows "do_loop ctx cfg fn attempt delay err st =
           (Some (if attempt = MaxAttempts cfg - 1 then Errorf_max_attempts e else e),
            st\<lparr>world := w, calls := calls st + 1\<rparr>)"
  using assms by (subst do_loop.simps) simp

lemma Do_first_not_retriable:
  assumes "1 \<le> MaxAttempts cfg" and "fn s = (Some e, s')"
    and "\<not> classifier cfg (Some e)"
  shows "Do ctx cfg fn s =
           (Some (if MaxAttempts cfg = 1 then Errorf_max_attempts e else e),
            \<lparr>world = s', calls = 1, waits = []\<rparr>)"
proof -
  let ?st = "\<lparr>world = s, calls = 0, waits = []\<rparr>"
  have "do_loop ctx cfg fn 0 (InitialDelay cfg) None ?st =
          (Some (if 0 = MaxAttempts cfg - 1 then Errorf_max_attempts e else e),
           ?st\<lparr>world := s', calls := calls ?st + 1\<rparr>)"
    using assms by (intro do_loop_first_not_retriable) simp_all
  moreover have "(0 = MaxAttempts cfg - 1) = (MaxAttempts cfg = 1)" by auto
  ultimately show ?thesis using assms(1) by (simp add: Do_def)
qed

lemma do_loop_always_failing:
  assumes fails: "\<forall>s. \<exists>e s'. fn s = (Some e, s') \<and> classifier cfg (Some e)"
    and never: "\<forall>a. ctx a = None"
  shows "n = nat (MaxAttempts cfg - attempt) \<Longrightarrow> attempt < MaxAttempts cfg \<Longrightarrow>
         calls (snd (do_loop ctx cfg fn attempt delay err st)) = calls st + n \<and>
         (\<exists>e. fst (do_loop ctx cfg fn attempt delay err st) = Some (Errorf_max_attempts e))"
proof (induction n arbitrary: attempt delay err st)
  case 0
  then show ?case by simp
next
  case (Suc n)
  from fails obtain e w where fn: "fn (world st) = (Some e, w)" and r: "classifier cfg (Some e)"
    by blast
  show ?case
  proof (cases "attempt = MaxAttempts cfg - 1")
    case True
    with Suc.prems fn show ?thesis
      by (subst (1 2) do_loop.simps) auto
  next
    case False
    define d where "d = (if scale_Duration delay (Multiplier cfg) > MaxDelay cfg
       then MaxDelay cfg else scale_Duration delay (Multiplier cfg))"
    define st' where "st' = st\<lparr>world := w, calls := calls st + 1, waits := waits st @ [d]\<rparr>"
    have step: "do_loop ctx cfg fn attempt delay err st =
                  do_loop ctx cfg fn (attempt + 1) d (Some e) st'"
      using Suc.prems fn r False never
      by (subst do_loop.simps) (simp add: Let_def d_def st'_def)
    have "n = nat (MaxAttempts cfg - (attempt + 1))" and "attempt + 1 < MaxAttempts cfg"
      using Suc.prems False by auto
    from Suc.IH [OF this, of d "Some e" st'] show ?thesis
      by (simp add: step st'_def)
  qed
qed

lemma state_after_Suc: "state_after fn (Suc k) s = snd (fn (state_after fn k s))"
  by (induction k arbitrary: s) simp_all

lemma do_loop_retries:
  "\<forall>j<k. \<exists>e. fst (fn (state_after fn j (world st))) = Some e \<and> classifier cfg (Some e) \<Longrightarrow>
   \<forall>j<k. ctx (attempt + int j) = None \<Longrightarrow>
   attempt + int k < MaxAttempts cfg \<Longrightarrow>
   \<exists>delay' err' ws.
      do_loop ctx cfg fn attempt delay err st =
        do_loop ctx cfg fn (attempt + int k) delay' err'
          \<lparr>world = state_after fn k (world st), calls = calls st + k, waits = waits st @ ws\<rparr> \<and>
      length ws = k"
proof (induction k arbitrary: attempt delay err st)
  case 0
  have "do_loop ctx cfg fn attempt delay err st =
        do_loop ctx cfg fn (attempt + int 0) delay err
          \<lparr>world = state_after fn 0 (world st), calls = calls st + 0, waits = waits st @ []\<rparr>"
    by (cases st) simp
  then show ?case by blast
next
  case (Suc k)
  from Suc.prems(1) obtain e where e: "fst (fn (world st)) = Some e" "classifier cfg (Some e)"
    by fastforce
  obtain w where fn: "fn (world st) = (Some e, w)"
    using e(1) by (cases "fn (world st)") simp
  from Suc.prems(2) have never: "ctx attempt = None" by fastforce
  define d where "d = (if scale_Duration delay (Multiplier cfg) > MaxDelay cfg
     then MaxDelay cfg else scale_Duration delay (Multiplier cfg))"
  define st' where "st' = st\<lparr>world := w, calls := calls st + 1, waits := waits st @ [d]\<rparr>"
  have step: "do_loop ctx cfg fn attempt delay err st =
                do_loop ctx cfg fn (attempt + 1) d (Some e) st'"
    using Suc.prems(3) fn e(2) never
    by (subst do_loop.simps) (simp add: Let_def d_def st'_def)
  have w: "world st' = snd (fn (world st))" by (simp add: st'_def fn)
  have h1: "\<forall>j<k. \<exists>e. fst (fn (state_after fn j (world st'))) = Some e \<and> classifier cfg (Some e)"
  proof (intro allI impI)
    fix j assume "j < k"
    then have "Suc j < Suc k" by simp
    with Suc.prems(1) have "\<exists>e. fst (fn (state_after fn (Suc j) (world st))) = Some e \<and>
        classifier cfg (Some e)" by blast
    then show "\<exists>e. fst (fn (state_after fn j (world st'))) = Some e \<and> classifier cfg (Some e)"
      by (simp add: w)
  qed
  have h2: "\<forall>j<k. ctx (attempt + 1 + int j) = None"
  proof (intro allI impI)
    fix j assume "j < k"
    then have "Suc j < Suc k" by simp
    with Suc.prems(2) have "ctx (attempt + int (Suc j)) = None" by blast
    moreover have "attempt + int (Suc j) = attempt + 1 + int j" by simp
    ultimately show "ctx (attempt + 1 + int j) = None" by (simp only:)
  qed
  have h3: "attempt + 1 + int k < MaxAttempts cfg" using Suc.prems(3) by simp
  from Suc.IH [OF h1 h2 h3, of d "Some e"] obtain delay' err' ws where
    r: "do_loop ctx cfg fn (attempt + 1) d (Some e) st' =
          do_loop ctx cfg fn (attempt + 1 + int k) delay' err'
            \<lparr>world = state_after fn k (world st'), calls = calls st' + k, waits = waits st' @ ws\<rparr>"
      and l: "length ws = k"
    by blast
  have "do_loop ctx cfg fn attempt delay err st =
          do_loop ctx cfg fn (attempt + int (Suc k)) delay' err'
            \<lparr>world = state_after fn (Suc k) (world st), calls = calls st + Suc k,
             waits = waits st @ (d # ws)\<rparr>"
  proof -
    have "attempt + 1 + int k = attempt + int (Suc k)" by simp
    with step r show ?thesis by (simp add: w st'_def fn)
  qed
  moreover have "length (d # ws) = Suc k" using l by simp
  ultimately show ?case by blast
qed

lemma Do_retries:
  assumes "\<forall>j<k. \<exists>e. fst (fn (state_after fn j s)) = Some e \<and> classifier cfg (Some e)"
    and "\<forall>j<k. ctx (int j) = None"
    and "int k < MaxAttempts cfg"
  shows "\<exists>delay' err' ws.
      Do ctx cfg fn s =
        do_loop ctx cfg fn (int k) delay' err'
          \<lparr>world = state_after fn k s, calls = k, waits = ws\<rparr> \<and>
      length ws = k"
proof -
  let ?st = "\<lparr>world = s, calls = 0, waits = []\<rparr>"
  have "\<forall>j<k. \<exists>e. fst (fn (state_after fn j (world ?st))) = Some e \<and> classifier cfg (Some e)"
    using assms(1) by simp
  moreover have "\<forall>j<k. ctx (0 + int j) = None" using assms(2) by simp
  moreover have "0 + int k < MaxAttempts cfg" using assms(3) by simp
  ultimately have "\<exists>delay' err' ws.
      do_loop ctx cfg fn 0 (InitialDelay cfg) None ?st =
        do_loop ctx cfg fn (0 + int k) delay' err'
          \<lparr>world = state_after fn k (world ?st), calls = calls ?st + k, waits = waits ?st @ ws\<rparr> \<and>
      length ws = k"
    by (rule do_loop_retries)
  moreover have "Do ctx cfg fn s = do_loop ctx cfg fn 0 (InitialDelay cfg) None ?st"
    using assms(3) by (simp add: Do_def)
  ultimately show ?thesis by simp
qed

lemma Do_stops_at_non_retriable:
  assumes "\<forall>j<k. \<exists>e'. fst (fn (state_after fn j s)) = Some e' \<and> classifier cfg (Some e')"
    and "\<forall>j<k. ctx (int j) = None"
    and "int k < MaxAttempts cfg"
    and "fst (fn (state_after fn k s)) = Some e"
    and "\<not> classifier cfg (Some e)"
  shows "fst (Do ctx cfg fn s) =
           Some (if int k = MaxAttempts cfg - 1 then Errorf_max_attempts e else e) \<and>
         calls (snd (Do ctx cfg fn s)) = Suc k \<and>
         world (snd (Do ctx cfg fn s)) = state_after fn (Suc k) s \<and>
         length (waits (snd (Do ctx cfg fn s))) = k"
proof -
  from Do_retries [OF assms(1,2,3)] obtain delay' err' ws where
    r: "Do ctx cfg fn s =
        do_loop ctx cfg fn (int k) delay' err'
          \<lparr>world = state_after fn k s, calls = k, waits = ws\<rparr>" and l: "length ws = k"
    by blast
  obtain w where fn: "fn (state_after fn k s) = (Some e, w)"
    using assms(4) by (cases "fn (state_after fn k s)") simp
  have w: "state_after fn (Suc k) s = w"
    using fn by (simp only: state_after_Suc snd_conv)
  let ?st = "\<lparr>world = state_after fn k s, calls = k, waits = ws\<rparr>"
  have "do_loop ctx cfg fn (int k) delay' err' ?st =
          (Some (if int k = MaxAttempts cfg - 1 then Errorf_max_attempts e else e),
           ?st\<lparr>world := w, calls := calls ?st + 1\<rparr>)"
    using assms(3,5) fn by (intro do_loop_first_not_retriable) simp_all
  with r l w show ?thesis by simp
qed

subsection \<open>The registry\<close>

lemma AddProvider_result:
  "snd (AddProvider m q) =
     (if providers m (Name q) \<noteq> None then m
      else if activeProvider m = None \<or> DefaultProvider (config m) = Name q
      then m\<lparr>providers := (providers m)(Name q \<mapsto> q), activeProvider := Some q\<rparr>
      else m\<lparr>providers := (providers m)(Name q \<mapsto> q)\<rparr>)"
  by (simp add: AddProvider_def Let_def)

lemma AddProvider_invariant:
  assumes names: "keys_are_names m" and act: "active_registered m"
  shows "keys_are_names (snd (AddProvider m q)) \<and> active_registered (snd (AddProvider m q))"
proof (cases "providers m (Name q) \<noteq> None")
  case True
  then have "snd (AddProvider m q) = m" by (simp add: AddProvider_result)
  with names act show ?thesis by simp
next
  case False
  then have new: "providers m (Name q) = None" by simp
  have provs: "providers (snd (AddProvider m q)) = (providers m)(Name q \<mapsto> q)"
    using new by (simp add: AddProvider_result)
  have n': "keys_are_names (snd (AddProvider m q))"
    unfolding keys_are_names_def provs using names by (auto simp: keys_are_names_def)
  have "active_registered (snd (AddProvider m q))"
  proof (cases "activeProvider m = None \<or> DefaultProvider (config m) = Name q")
    case True
    then have "activeProvider (snd (AddProvider m q)) = Some q"
      using new by (simp add: AddProvider_result)
    then show ?thesis by (simp add: active_registered_def provs)
  next
    case False
    then obtain a where a: "activeProvider m = Some a" by auto
    with act have reg: "providers m (Name a) = Some a" by (simp add: active_registered_def)
    with new have "Name a \<noteq> Name q" by auto
    moreover have "activeProvider (snd (AddProvider m q)) = Some a"
      using new False a by (simp add: AddProvider_result)
    ultimately show ?thesis using reg by (simp add: active_registered_def provs)
  qed
  with n' show ?thesis by simp
qed

lemma SwitchProvider_result:
  "snd (SwitchProvider m name) =
     (case providers m name of None \<Rightarrow> m | Some p \<Rightarrow> m\<lparr>activeProvider := Some p\<rparr>)"
  by (simp add: SwitchProvider_def split: option.splits)

lemma SwitchProvider_invariant:
  assumes names: "keys_are_names m" and act: "active_registered m"
  shows "keys_are_names (snd (SwitchProvider m name)) \<and>
         active_registered (snd (SwitchProvider m name))"
proof (cases "providers m name")
  case None
  then have "snd (SwitchProvider m name) = m" by (simp add: SwitchProvider_result)
  with names act show ?thesis by simp
next
  case (Some p)
  then have res: "snd (SwitchProvider m name) = m\<lparr>activeProvider := Some p\<rparr>"
    by (simp add: SwitchProvider_result)
  from names Some have "Name p = name" unfolding keys_are_names_def by blast
  with Some have "active_registered (m\<lparr>activeProvider := Some p\<rparr>)"
    by (simp add: active_registered_def)
  moreover from names have "keys_are_names (m\<lparr>activeProvider := Some p\<rparr>)"
    by (simp add: keys_are_names_def)
  ultimately show ?thesis by (simp add: res)
qed

lemma registry_calls_invariant:
  "keys_are_names m \<Longrightarrow> active_registered m \<Longrightarrow>
   keys_are_names (registry_calls m cs) \<and> active_registered (registry_calls m cs)"
proof (induction cs arbitrary: m)
  case Nil
  then show ?case by simp
next
  case (Cons c cs)
  show ?case
  proof (cases c)
    case (Register p)
    from AddProvider_invariant [OF Cons.prems, of p]
    have "keys_are_names (snd (AddProvider m p))" "active_registered (snd (AddProvider m p))"
      by simp_all
    from Cons.IH [OF this] show ?thesis by (simp add: Register)
  next
    case (Switch name)
    from SwitchProvider_invariant [OF Cons.prems, of name]
    have "keys_are_names (snd (SwitchProvider m name))"
      "active_registered (snd (SwitchProvider m name))"
      by simp_all
    from Cons.IH [OF this] show ?thesis by (simp add: Switch)
  qed
qed

lemmas registry_eval = empty_module_def one_provider_def test_calls_def test_config_def
  twilio_first_def twilio_second_def esms_provider_def failing_provider_def

subsection \<open>The send methods\<close>

lemma retryConfig_fields:
  "MaxAttempts (retryConfig m) = RetryAttempts (config m)"
  "classifier (retryConfig m) = IsRetriable"
  by (simp_all add: retryConfig_def classifier_def)

lemma Module_SendSMS_permanent:
  assumes act: "activeProvider m = Some p" and n: "1 \<le> RetryAttempts (config m)"
    and perm: "\<not> IsRetriable (Some e)"
    and valid: "Validate_SMS req = None"
    and call: "Provider.SendSMS p req w = ((resp, Some e), w')"
  defines "err \<equiv> (if RetryAttempts (config m) = 1 then Errorf_max_attempts e else e)"
  shows "Module_SendSMS ctx m req w =
           ((zero_SendSMSResponse,
             Some (WrapError (''failed to send SMS after '' @ show_int (RetryAttempts (config m)) @
                              '' attempts: '' @ Error err) err)), w')"
proof -
  let ?fn = "\<lambda>(response :: SendSMSResponse, w0). case Provider.SendSMS p req w0 of
                ((response', err), w1) \<Rightarrow> (err, (response', w1))"
  have fn: "?fn (zero_SendSMSResponse, w) = (Some e, (resp, w'))"
    using call by simp
  have "Do ctx (retryConfig m) ?fn (zero_SendSMSResponse, w) =
          (Some (if MaxAttempts (retryConfig m) = 1 then Errorf_max_attempts e else e),
           \<lparr>world = (resp, w'), calls = 1, waits = []\<rparr>)"
    using n perm fn by (intro Do_first_not_retriable) (simp_all add: retryConfig_fields)
  then have "Do ctx (retryConfig m) ?fn (zero_SendSMSResponse, w) =
          (Some err, \<lparr>world = (resp, w'), calls = 1, waits = []\<rparr>)"
    by (simp only: retryConfig_fields err_def)
  then show ?thesis
    unfolding Module_SendSMS_def by (simp add: act valid)
qed

lemma Module_SendSMS_stops:
  assumes act: "activeProvider m = Some p" and valid: "Validate_SMS req = None"
    and retried: "\<forall>j<k. \<exists>e'. fst (SendSMS_attempt p req
                     (state_after (SendSMS_attempt p req) j (zero_SendSMSResponse, w))) = Some e' \<and>
                   IsRetriable (Some e')"
    and timers: "\<forall>j<k. ctx (int j) = None"
    and allowed: "int k < RetryAttempts (config m)"
    and failed: "fst (SendSMS_attempt p req
                   (state_after (SendSMS_attempt p req) k (zero_SendSMSResponse, w))) = Some e"
    and perm: "\<not> IsRetriable (Some e)"
  shows "\<exists>msg. Module_SendSMS ctx m req w =
           ((zero_SendSMSResponse,
             Some (WrapError msg (if int k = RetryAttempts (config m) - 1
                                  then Errorf_max_attempts e else e))),
            snd (state_after (SendSMS_attempt p req) (Suc k) (zero_SendSMSResponse, w)))"
proof -
  let ?fn = "SendSMS_attempt p req"
  let ?s = "(zero_SendSMSResponse, w)"
  let ?err = "if int k = RetryAttempts (config m) - 1 then Errorf_max_attempts e else e"
  have D: "fst (Do ctx (retryConfig m) ?fn ?s) =
             Some (if int k = MaxAttempts (retryConfig m) - 1 then Errorf_max_attempts e else e) \<and>
           calls (snd (Do ctx (retryConfig m) ?fn ?s)) = Suc k \<and>
           world (snd (Do ctx (retryConfig m) ?fn ?s)) = state_after ?fn (Suc k) ?s \<and>
           length (waits (snd (Do ctx (retryConfig m) ?fn ?s))) = k"
    using retried timers allowed failed perm
    by (intro Do_stops_at_non_retriable) (simp_all add: retryConfig_fields)
  obtain r where r: "Do ctx (retryConfig m) ?fn ?s = (Some ?err, r)"
    and wr: "world r = state_after ?fn (Suc k) ?s"
    using D by (cases "Do ctx (retryConfig m) ?fn ?s") (simp add: retryConfig_fields)
  from r have "Do ctx (retryConfig m)
      (\<lambda>(response, w0). case Provider.SendSMS p req w0 of
                          ((response', err), w1) \<Rightarrow> (err, (response', w1))) ?s = (Some ?err, r)"
    unfolding SendSMS_attempt_def .
  then have "Module_SendSMS ctx m req w =
           ((zero_SendSMSResponse,
             Some (WrapError (''failed to send SMS after '' @ show_int (RetryAttempts (config m)) @
                              '' attempts: '' @ Error ?err) ?err)),
            snd (state_after ?fn (Suc k) ?s))"
    unfolding Module_SendSMS_def by (simp add: act valid wr)
  then show ?thesis by blast
qed

lemma Module_SendVoiceCall_stops:
  assumes act: "activeProvider m = Some p" and valid: "Validate_Voice req = None"
    and retried: "\<forall>j<k. \<exists>e'. fst (SendVoiceCall_attempt p req
                     (state_after (SendVoiceCall_attempt p req) j (zero_SendVoiceResponse, w))) = Some e' \<and>
                   IsRetriable (Some e')"
    and timers: "\<forall>j<k. ctx (int j) = None"
    and allowed: "int k < RetryAttempts (config m)"
    and failed: "fst (SendVoiceCall_attempt p req
                   (state_after (SendVoiceCall_attempt p req) k (zero_SendVoiceResponse, w))) = Some e"
    and perm: "\<not> IsRetriable (Some e)"
  shows "\<exists>msg. Module_SendVoiceCall ctx m req w =
           ((zero_SendVoiceResponse,
             Some (WrapError msg (if int k = RetryAttempts (config m) - 1
                                  then Errorf_max_attempts e else e))),
            snd (state_after (SendVoiceCall_attempt p req) (Suc k) (zero_SendVoiceResponse, w)))"
proof -
  let ?fn = "SendVoiceCall_attempt p req"
  let ?s = "(zero_SendVoiceResponse, w)"
  let ?err = "if int k = RetryAttempts (config m) - 1 then Errorf_max_attempts e else e"
  have D: "fst (Do ctx (retryConfig m) ?fn ?s) =
             Some (if int k = MaxAttempts (retryConfig m) - 1 then Errorf_max_attempts e else e) \<and>
           calls (snd (Do ctx (retryConfig m) ?fn ?s)) = Suc k \<and>
           world (snd (Do ctx (retryConfig m) ?fn ?s)) = state_after ?fn (Suc k) ?s \<and>
           length (waits (snd (Do ctx (retryConfig m) ?fn ?s))) = k"
    using retried timers allowed failed perm
    by (intro Do_stops_at_non_retriable) (simp_all add: retryConfig_fields)
  obtain r where r: "Do ctx (retryConfig m) ?fn ?s = (Some ?err, r)"
    and wr: "world r = state_after ?fn (Suc k) ?s"
    using D by (cases "Do ctx (retryConfig m) ?fn ?s") (simp add: retryConfig_fields)
  from r have "Do ctx (retryConfig m)
      (\<lambda>(response, w0). case Provider.SendVoiceCall p req w0 of
                          ((response', err), w1) \<Rightarrow> (err, (response', w1))) ?s = (Some ?err, r)"
    unfolding SendVoiceCall_attempt_def .
  then have "Module_SendVoiceCall ctx m req w =
           ((zero_SendVoiceResponse,
             Some (WrapError (''failed to send voice call after '' @
                              show_int (RetryAttempts (config m)) @
                              '' attempts: '' @ Error ?err) ?err)),
            snd (state_after ?fn (Suc k) ?s))"
    unfolding Module_SendVoiceCall_def by (simp add: act valid wr)
  then show ?thesis by blast
qed

lemma test_requests_valid:
  "Validate_SMS sms_request = None"
  "Validate_Voice voice_request = None"
  by (simp_all add: Validate_SMS_def Validate_Voice_def Validate_Message_def
      ValidatePhoneNumber_def sms_request_def voice_request_def test_message_def
      ReplaceAll_empty_def HasPrefix_def all_digits_def)

section \<open>The claims\<close>

subsection \<open>Template rendering\<close>

text \<open>
  C1. The claim: when the data bag has one of the keys \<open>from\<close>, \<open>to\<close>, \<open>by\<close>, the rendered
  text shows the identity's value for that placeholder, not the data bag's. \<open>Render\<close> stores
  an identity field only under a key that the data bag does not have, so on the input of
  the repository's test "Message fields override data map" (expected there:
  \<open>From: Sender, To: +1234567890, By: TestApp\<close>) the data bag's values are rendered.
\<close>

theorem Render_data_bag_wins:
  "fst (Render test_message ''From: {from}, To: {to}, By: {by}'' (Some override_data)) =
     ''From: OtherSender, To: OtherRecipient, By: OtherApp''"
  by (simp add: Render_def add_fields_def lookup_placeholder_def not_brace_def
      test_message_def override_data_def)

text \<open>
  C10. For a non-empty template and a non-nil data bag, the caller's map after \<open>Render\<close>
  has every entry it had before, unchanged, and under each of the keys \<open>from\<close>, \<open>to\<close>,
  \<open>by\<close> that it did not have, the identity's value; it has no other new entry.
\<close>

theorem Render_stores_missing_fields:
  assumes "template \<noteq> []"
  shows "snd (Render m template (Some data)) =
           Some (\<lambda>k. case data k of
                        Some v \<Rightarrow> Some v
                      | None \<Rightarrow>
                          if k = ''from'' then Some (VString (From m))
                          else if k = ''to'' then Some (VString (To m))
                          else if k = ''by'' then Some (VString (By m))
                          else None)"
proof -
  have "add_fields m data =
          (\<lambda>k. case data k of
                  Some v \<Rightarrow> Some v
                | None \<Rightarrow>
                    if k = ''from'' then Some (VString (From m))
                    else if k = ''to'' then Some (VString (To m))
                    else if k = ''by'' then Some (VString (By m))
                    else None)"
    by (rule ext) (auto simp: add_fields_def Let_def split: option.splits)
  with assms show ?thesis
    by (simp add: Render_def Let_def)
qed

text \<open>
  The witness: a data bag with \<open>to\<close> and \<open>code\<close>. After the call it also has \<open>from\<close> and
  \<open>by\<close>, with the message's values; \<open>to\<close> and \<open>code\<close> are as they were.
\<close>

theorem Render_stores_missing_fields_witness:
  "''Code {code}'' \<noteq> [] \<and>
   (case snd (Render test_message ''Code {code}'' (Some partial_data)) of
      None \<Rightarrow> False
    | Some d \<Rightarrow>
        d ''from'' = Some (VString ''Sender'') \<and> d ''to'' = Some (VString ''OtherRecipient'') \<and>
        d ''by'' = Some (VString ''TestApp'') \<and> d ''code'' = Some (VInt 7) \<and> d ''x'' = None)"
  using Render_stores_missing_fields [of "''Code {code}''" test_message partial_data]
  by (simp add: test_message_def partial_data_def)

subsection \<open>The retry engine\<close>

text \<open>
  C2. The claim: the first wait of \<open>Do\<close> is \<open>InitialDelay\<close>, and each later wait is the
  smaller of the previous wait times the multiplier and \<open>MaxDelay\<close>. \<open>Do\<close> multiplies
  the delay before it starts the first timer: with an initial delay of 100 ms, a multiplier
  of 2 and three attempts that all fail with a retriable error, the two waits are 200 ms
  and 400 ms, not 100 ms and 200 ms.
\<close>

theorem Do_first_wait_is_multiplied:
  "InitialDelay test_retry_config = 100 * Millisecond \<and>
   Multiplier test_retry_config = 2 \<and>
   waits (snd (Do never_done test_retry_config (always_fails (HTTPError 500 ''Server error'')) 0)) =
     [200 * Millisecond, 400 * Millisecond]"
  by (simp add: Do_eval)

text \<open>
  C3, as amended. With \<open>MaxAttempts = N\<close>, \<open>N \<ge> 1\<close>, an operation that fails on every
  call with an error that the policy's classifier accepts, and a context that is not done
  during any wait, \<open>Do\<close> invokes the operation exactly \<open>N\<close> times and returns an error that
  wraps \<open>ErrMaxAttemptsReached\<close>.
\<close>

theorem Do_attempts_exhausted:
  assumes "1 \<le> MaxAttempts cfg"
    and "\<forall>s. \<exists>e s'. fn s = (Some e, s') \<and> classifier cfg (Some e)"
    and "\<forall>a. ctx a = None"
  shows "calls (snd (Do ctx cfg fn s)) = nat (MaxAttempts cfg) \<and>
         (\<exists>e. fst (Do ctx cfg fn s) = Some (Errorf_max_attempts e) \<and>
               errors_Is (Errorf_max_attempts e) ErrMaxAttemptsReached)"
proof -
  let ?st = "\<lparr>world = s, calls = 0, waits = []\<rparr>"
  have "calls (snd (do_loop ctx cfg fn 0 (InitialDelay cfg) None ?st)) =
          calls ?st + nat (MaxAttempts cfg - 0) \<and>
        (\<exists>e. fst (do_loop ctx cfg fn 0 (InitialDelay cfg) None ?st) =
               Some (Errorf_max_attempts e))"
    using assms by (intro do_loop_always_failing) simp_all
  moreover have "errors_Is (Errorf_max_attempts e) ErrMaxAttemptsReached" for e
    by (simp add: errors_Is_def Errorf_max_attempts_def)
  ultimately show ?thesis using assms(1) by (simp add: Do_def)
qed

text \<open>
  The witness: the row "Max attempts reached" of \<open>TestDo\<close>, three attempts and an operation
  that always fails with the status 500.
\<close>

theorem Do_attempts_exhausted_witness:
  "1 \<le> MaxAttempts DefaultConfig \<and>
   (\<forall>s. \<exists>e s'. always_fails (HTTPError 500 ''Server error'') s = (Some e, s') \<and>
                  classifier DefaultConfig (Some e)) \<and>
   (\<forall>a. never_done a = None) \<and>
   calls (snd (Do never_done DefaultConfig (always_fails (HTTPError 500 ''Server error'')) 0)) = 3 \<and>
   (\<exists>e. fst (Do never_done DefaultConfig (always_fails (HTTPError 500 ''Server error'')) 0) =
          Some (Errorf_max_attempts e))"
proof -
  have h1: "1 \<le> MaxAttempts DefaultConfig"
    by (simp add: DefaultConfig_def)
  have h2: "\<forall>s. \<exists>e s'. always_fails (HTTPError 500 ''Server error'') s = (Some e, s') \<and>
                         classifier DefaultConfig (Some e)"
    by (simp add: always_fails_def classifier_def DefaultConfig_def http500_retriable)
  have h3: "\<forall>a. never_done a = None"
    by (simp add: never_done_def)
  have n: "nat (MaxAttempts DefaultConfig) = 3"
    by (simp add: DefaultConfig_def)
  from Do_attempts_exhausted [OF h1 h2 h3, of 0] h1 h2 h3 show ?thesis
    unfolding n by blast
qed

text \<open>
  The counterexample to C3 as stated: the row "Context cancellation" of \<open>TestDo\<close>. The
  policy allows three attempts and the operation always fails with a retriable error, but
  the context's deadline passes during the first wait: the operation is invoked once and the
  error is the context's.
\<close>

theorem Do_cancelled_before_exhaustion:
  "MaxAttempts test_retry_config = 3 \<and>
   classifier test_retry_config (Some (HTTPError 500 ''Server error'')) \<and>
   Do deadline_exceeded test_retry_config (always_fails (HTTPError 500 ''Server error'')) 0 =
     (Some DeadlineExceeded, \<lparr>world = 1, calls = 1, waits = [200 * Millisecond]\<rparr>)"
  by (simp add: Do_eval)

text \<open>
  C4. With \<open>MaxAttempts \<ge> 1\<close> and an operation whose first call fails with an error that
  the classifier rejects, \<open>Do\<close> invokes the operation exactly once, starts no timer, and
  returns that error as it is; only when that one attempt is also the last one allowed
  (\<open>MaxAttempts = 1\<close>) is the error the attempts-exhausted wrapping.
\<close>

theorem Do_non_retriable_once:
  assumes "1 \<le> MaxAttempts cfg" and "fn s = (Some e, s')"
    and "\<not> classifier cfg (Some e)"
  shows "calls (snd (Do ctx cfg fn s)) = 1 \<and> waits (snd (Do ctx cfg fn s)) = [] \<and>
         world (snd (Do ctx cfg fn s)) = s' \<and>
         fst (Do ctx cfg fn s) =
           Some (if MaxAttempts cfg = 1 then Errorf_max_attempts e else e)"
  using Do_first_not_retriable [where fn = fn and s = s, OF assms] by simp

text \<open>The witness: the row "Non-retriable error" of \<open>TestDo\<close>, the status 400.\<close>

theorem Do_non_retriable_once_witness:
  "1 \<le> MaxAttempts DefaultConfig \<and>
   always_fails (HTTPError 400 ''Bad request'') 0 = (Some (HTTPError 400 ''Bad request''), 1) \<and>
   \<not> classifier DefaultConfig (Some (HTTPError 400 ''Bad request'')) \<and>
   calls (snd (Do never_done DefaultConfig (always_fails (HTTPError 400 ''Bad request'')) 0)) = 1 \<and>
   fst (Do never_done DefaultConfig (always_fails (HTTPError 400 ''Bad request'')) 0) =
     Some (HTTPError 400 ''Bad request'')"
proof -
  have h1: "1 \<le> MaxAttempts DefaultConfig"
    by (simp add: DefaultConfig_def)
  have h2: "always_fails (HTTPError 400 ''Bad request'') 0 =
              (Some (HTTPError 400 ''Bad request''), 1)"
    by (simp add: always_fails_def)
  have h3: "\<not> classifier DefaultConfig (Some (HTTPError 400 ''Bad request''))"
    by (simp add: classifier_def DefaultConfig_def http400_not_retriable)
  have n: "MaxAttempts DefaultConfig \<noteq> 1"
    by (simp add: DefaultConfig_def)
  from Do_non_retriable_once [where fn = "always_fails (HTTPError 400 ''Bad request'')"
         and s = 0 and ctx = never_done, OF h1 h2 h3] h1 h2 h3 n
  show ?thesis by simp
qed

text \<open>
  C5. The claim: \<open>IsRetriable\<close> is false for \<open>context.Canceled\<close> and
  \<open>context.DeadlineExceeded\<close> and for every unknown error, and true for network failures,
  timeouts and the statuses 5xx and 429. The check for \<open>net.Error\<close> comes first, and the
  value \<open>context.DeadlineExceeded\<close> has the methods of \<open>net.Error\<close>: it is classified
  retriable. The text match for timeouts looks for \<open>timeout\<close>, which the message
  \<open>operation timed out\<close> does not contain: it is classified not retriable. Both rows are in
  \<open>TestIsRetriable\<close> with the opposite expectation.
\<close>

theorem IsRetriable_misclassifies:
  "IsRetriable (Some DeadlineExceeded) = True \<and>
   IsRetriable (Some (ErrorString ''operation timed out'')) = False"
  by (simp add: classify_eval)

text \<open>
  C6. \<open>Do\<close> waits after attempt number \<open>a\<close> (counted from 0) when that attempt is not
  the last one allowed, the calls up to it have all failed with errors that the classifier
  accepts, and the timer fired first in every earlier wait. When the context is done during
  that wait, \<open>Do\<close> returns \<open>ctx.Err()\<close>; the operation has been invoked \<open>a + 1\<close> times
  in all and is in the state in which call number \<open>a\<close> left it, that wait is the last one,
  and the error is not an attempts-exhausted error.
\<close>

theorem Do_cancelled_while_waiting:
  assumes "int a + 1 < MaxAttempts cfg"
    and "\<forall>j\<le>a. \<exists>e. fst (fn (state_after fn j s)) = Some e \<and> classifier cfg (Some e)"
    and "\<forall>j<a. ctx (int j) = None"
    and "ctx (int a) = Some ce"
  shows "fst (Do ctx cfg fn s) = Some (ctx_Err ce) \<and>
         calls (snd (Do ctx cfg fn s)) = a + 1 \<and>
         world (snd (Do ctx cfg fn s)) = state_after fn (a + 1) s \<and>
         length (waits (snd (Do ctx cfg fn s))) = a + 1 \<and>
         \<not> errors_Is (ctx_Err ce) ErrMaxAttemptsReached"
proof -
  have "\<forall>j<a. \<exists>e. fst (fn (state_after fn j s)) = Some e \<and> classifier cfg (Some e)"
    using assms(2) by simp
  moreover have "int a < MaxAttempts cfg" using assms(1) by simp
  ultimately obtain delay' err' ws where
    r: "Do ctx cfg fn s =
        do_loop ctx cfg fn (int a) delay' err'
          \<lparr>world = state_after fn a s, calls = a, waits = ws\<rparr>" and l: "length ws = a"
    using Do_retries [of a fn s cfg ctx] assms(3) by blast
  from assms(2) obtain e where e: "fst (fn (state_after fn a s)) = Some e"
    "classifier cfg (Some e)" by blast
  obtain w where fn: "fn (state_after fn a s) = (Some e, w)"
    using e(1) by (cases "fn (state_after fn a s)") simp
  have "state_after fn (Suc a) s = w"
    using fn by (simp only: state_after_Suc snd_conv)
  then have w: "state_after fn (a + 1) s = w" by simp
  let ?st = "\<lparr>world = state_after fn a s, calls = a, waits = ws\<rparr>"
  have "\<exists>d. do_loop ctx cfg fn (int a) delay' err' ?st =
          (Some (ctx_Err ce), ?st\<lparr>world := w, calls := calls ?st + 1, waits := waits ?st @ [d]\<rparr>)"
    using assms(1,4) fn e(2) by (subst do_loop.simps) (simp add: Let_def)
  then obtain d where "Do ctx cfg fn s =
      (Some (ctx_Err ce), \<lparr>world = w, calls = a + 1, waits = ws @ [d]\<rparr>)"
    using r by auto
  moreover have "\<not> errors_Is (ctx_Err ce) ErrMaxAttemptsReached"
    by (cases ce) (simp_all add: errors_Is_def)
  ultimately show ?thesis using l w by simp
qed

text \<open>
  The witness: three attempts allowed, the operation always fails with the status 500, and
  the context is cancelled during the second wait. The operation is invoked twice.
\<close>

theorem Do_cancelled_while_waiting_witness:
  "int 1 + 1 < MaxAttempts test_retry_config \<and>
   cancelled_in_second_wait (int 0) = None \<and>
   cancelled_in_second_wait (int 1) = Some CtxCanceled \<and>
   fst (Do cancelled_in_second_wait test_retry_config
          (always_fails (HTTPError 500 ''Server error'')) 0) = Some Canceled \<and>
   calls (snd (Do cancelled_in_second_wait test_retry_config
                 (always_fails (HTTPError 500 ''Server error'')) 0)) = 2 \<and>
   world (snd (Do cancelled_in_second_wait test_retry_config
                 (always_fails (HTTPError 500 ''Server error'')) 0)) = 2"
proof -
  let ?fn = "always_fails (HTTPError 500 ''Server error'')"
  have h1: "int 1 + 1 < MaxAttempts test_retry_config"
    by (simp add: test_retry_config_def DefaultConfig_def)
  have h2: "\<forall>j\<le>1. \<exists>e. fst (?fn (state_after ?fn j 0)) = Some e \<and>
                         classifier test_retry_config (Some e)"
    by (simp add: always_fails_def classifier_def test_retry_config_def DefaultConfig_def
        http500_retriable)
  have h3: "\<forall>j<1. cancelled_in_second_wait (int j) = None"
    by (simp add: cancelled_in_second_wait_def)
  have h4: "cancelled_in_second_wait (int 1) = Some CtxCanceled"
    by (simp add: cancelled_in_second_wait_def)
  have h5: "cancelled_in_second_wait (int 0) = None"
    by (simp add: cancelled_in_second_wait_def)
  have w: "state_after ?fn (1 + 1) 0 = 2"
    by (simp add: always_fails_def)
  from Do_cancelled_while_waiting [OF h1 h2 h3 h4] h1 h4 h5 w show ?thesis
    by simp
qed

subsection \<open>The module\<close>

text \<open>
  C7, as amended. Take a call of \<open>SendSMS\<close> or \<open>SendVoiceCall\<close> in which the provider's
  call number \<open>k\<close> (counted from 0, within the attempts configured) fails with an error
  that \<open>IsRetriable\<close> rejects, after \<open>k\<close> calls that failed with errors it accepts and
  whose waits ended by the timer. The provider is not called again: the outside world is as
  call number \<open>k\<close> left it. The response is the zero value, and the error is a new error
  that unwraps to what \<open>Do\<close> returned: the provider's error itself when the attempt was not
  the last one configured, and its attempts-exhausted wrapping when it was. The text of the
  new error is not part of the statement.
\<close>

theorem Module_send_permanent_error:
  assumes "activeProvider m = Some p" and "int k < RetryAttempts (config m)"
    and "\<forall>j<k. ctx (int j) = None" and "\<not> IsRetriable (Some e)"
  shows "let err = (if int k = RetryAttempts (config m) - 1 then Errorf_max_attempts e else e) in
         (Validate_SMS req = None \<and>
          (\<forall>j<k. \<exists>e'. fst (SendSMS_attempt p req
                     (state_after (SendSMS_attempt p req) j (zero_SendSMSResponse, w))) = Some e' \<and>
                   IsRetriable (Some e')) \<and>
          fst (SendSMS_attempt p req
                 (state_after (SendSMS_attempt p req) k (zero_SendSMSResponse, w))) = Some e \<longrightarrow>
            (\<exists>msg. Module_SendSMS ctx m req w =
               ((zero_SendSMSResponse, Some (WrapError msg err)),
                snd (state_after (SendSMS_attempt p req) (Suc k) (zero_SendSMSResponse, w))))) \<and>
         (Validate_Voice vreq = None \<and>
          (\<forall>j<k. \<exists>e'. fst (SendVoiceCall_attempt p vreq
                     (state_after (SendVoiceCall_attempt p vreq) j (zero_SendVoiceResponse, w))) = Some e' \<and>
                   IsRetriable (Some e')) \<and>
          fst (SendVoiceCall_attempt p vreq
                 (state_after (SendVoiceCall_attempt p vreq) k (zero_SendVoiceResponse, w))) = Some e \<longrightarrow>
            (\<exists>msg. Module_SendVoiceCall ctx m vreq w =
               ((zero_SendVoiceResponse, Some (WrapError msg err)),
                snd (state_after (SendVoiceCall_attempt p vreq) (Suc k)
                       (zero_SendVoiceResponse, w)))))"
  unfolding Let_def
proof (intro conjI impI)
  assume a: "Validate_SMS req = None \<and>
          (\<forall>j<k. \<exists>e'. fst (SendSMS_attempt p req
                     (state_after (SendSMS_attempt p req) j (zero_SendSMSResponse, w))) = Some e' \<and>
                   IsRetriable (Some e')) \<and>
          fst (SendSMS_attempt p req
                 (state_after (SendSMS_attempt p req) k (zero_SendSMSResponse, w))) = Some e"
  show "\<exists>msg. Module_SendSMS ctx m req w =
               ((zero_SendSMSResponse,
                 Some (WrapError msg (if int k = RetryAttempts (config m) - 1
                                      then Errorf_max_attempts e else e))),
                snd (state_after (SendSMS_attempt p req) (Suc k) (zero_SendSMSResponse, w)))"
    using assms a by (intro Module_SendSMS_stops) blast+
next
  assume a: "Validate_Voice vreq = None \<and>
          (\<forall>j<k. \<exists>e'. fst (SendVoiceCall_attempt p vreq
                     (state_after (SendVoiceCall_attempt p vreq) j (zero_SendVoiceResponse, w))) = Some e' \<and>
                   IsRetriable (Some e')) \<and>
          fst (SendVoiceCall_attempt p vreq
                 (state_after (SendVoiceCall_attempt p vreq) k (zero_SendVoiceResponse, w))) = Some e"
  show "\<exists>msg. Module_SendVoiceCall ctx m vreq w =
               ((zero_SendVoiceResponse,
                 Some (WrapError msg (if int k = RetryAttempts (config m) - 1
                                      then Errorf_max_attempts e else e))),
                snd (state_after (SendVoiceCall_attempt p vreq) (Suc k)
                       (zero_SendVoiceResponse, w)))"
    using assms a by (intro Module_SendVoiceCall_stops) blast+
qed

text \<open>
  The witness: three attempts configured, a provider whose first call fails with the
  status 500 and whose second call fails with the status 400. The provider is called twice
  and the error unwraps to the status 400.
\<close>

theorem Module_send_permanent_error_witness:
  "activeProvider flaky_module = Some flaky_provider \<and>
   int 1 < RetryAttempts (config flaky_module) \<and>
   never_done (int 0) = None \<and>
   IsRetriable (Some (HTTPError 500 ''Server error'')) \<and>
   \<not> IsRetriable (Some (HTTPError 400 ''Bad request'')) \<and>
   Validate_SMS sms_request = None \<and>
   Validate_Voice voice_request = None \<and>
   snd (Module_SendSMS never_done flaky_module sms_request 0) = 2 \<and>
   (\<exists>msg. fst (Module_SendSMS never_done flaky_module sms_request 0) =
            (zero_SendSMSResponse, Some (WrapError msg (HTTPError 400 ''Bad request'')))) \<and>
   snd (Module_SendVoiceCall never_done flaky_module voice_request 0) = 2 \<and>
   (\<exists>msg. fst (Module_SendVoiceCall never_done flaky_module voice_request 0) =
            (zero_SendVoiceResponse, Some (WrapError msg (HTTPError 400 ''Bad request''))))"
proof -
  let ?e = "HTTPError 400 ''Bad request''"
  have h1: "activeProvider flaky_module = Some flaky_provider"
    by (simp add: flaky_module_def)
  have h2: "int 1 < RetryAttempts (config flaky_module)"
    by (simp add: flaky_module_def test_config_def)
  have n: "int 1 \<noteq> RetryAttempts (config flaky_module) - 1"
    by (simp add: flaky_module_def test_config_def)
  have h3: "\<forall>j<1. never_done (int j) = None"
    by (simp add: never_done_def)
  have h3': "never_done (int 0) = None"
    by (simp add: never_done_def)
  have s1: "\<forall>j<1. \<exists>e'. fst (SendSMS_attempt flaky_provider sms_request
                     (state_after (SendSMS_attempt flaky_provider sms_request) j
                        (zero_SendSMSResponse, 0))) = Some e' \<and> IsRetriable (Some e')"
    by (simp add: SendSMS_attempt_def flaky_provider_def http500_retriable)
  have s2: "fst (SendSMS_attempt flaky_provider sms_request
                   (state_after (SendSMS_attempt flaky_provider sms_request) 1
                      (zero_SendSMSResponse, 0))) = Some ?e"
    by (simp add: SendSMS_attempt_def flaky_provider_def)
  have s3: "snd (state_after (SendSMS_attempt flaky_provider sms_request) (Suc 1)
                   (zero_SendSMSResponse, 0)) = 2"
    by (simp add: SendSMS_attempt_def flaky_provider_def)
  have v1: "\<forall>j<1. \<exists>e'. fst (SendVoiceCall_attempt flaky_provider voice_request
                     (state_after (SendVoiceCall_attempt flaky_provider voice_request) j
                        (zero_SendVoiceResponse, 0))) = Some e' \<and> IsRetriable (Some e')"
    by (simp add: SendVoiceCall_attempt_def flaky_provider_def http500_retriable)
  have v2: "fst (SendVoiceCall_attempt flaky_provider voice_request
                   (state_after (SendVoiceCall_attempt flaky_provider voice_request) 1
                      (zero_SendVoiceResponse, 0))) = Some ?e"
    by (simp add: SendVoiceCall_attempt_def flaky_provider_def)
  have v3: "snd (state_after (SendVoiceCall_attempt flaky_provider voice_request) (Suc 1)
                   (zero_SendVoiceResponse, 0)) = 2"
    by (simp add: SendVoiceCall_attempt_def flaky_provider_def)
  note t = Module_send_permanent_error [where m = flaky_module and p = flaky_provider
         and k = 1 and e = ?e and req = sms_request and vreq = voice_request
         and w = 0 and ctx = never_done, OF h1 h2 h3 http400_not_retriable, unfolded Let_def]
  from t test_requests_valid s1 s2 n
  obtain msg where m1: "Module_SendSMS never_done flaky_module sms_request 0 =
      ((zero_SendSMSResponse, Some (WrapError msg ?e)),
       snd (state_after (SendSMS_attempt flaky_provider sms_request) (Suc 1)
              (zero_SendSMSResponse, 0)))"
    by auto
  from t test_requests_valid v1 v2 n
  obtain vmsg where m2: "Module_SendVoiceCall never_done flaky_module voice_request 0 =
      ((zero_SendVoiceResponse, Some (WrapError vmsg ?e)),
       snd (state_after (SendVoiceCall_attempt flaky_provider voice_request) (Suc 1)
              (zero_SendVoiceResponse, 0)))"
    by auto
  from m1 m2 s3 v3 h1 h2 h3' http500_retriable http400_not_retriable test_requests_valid
  show ?thesis by simp
qed

text \<open>
  The counterexample to C7 as stated: with the same module and request, the provider's
  error is the status 400, which is not retriable, and the error that \<open>SendSMS\<close> returns
  is not that error but a new one that wraps it. With one attempt configured, what the new
  error wraps is the attempts-exhausted error, which has the provider's error in its text
  only.
\<close>

theorem Module_SendSMS_wraps_error:
  "Provider.SendSMS twilio_first sms_request 0 =
     ((zero_SendSMSResponse, Some (HTTPError 400 ''Bad request'')), 1) \<and>
   \<not> IsRetriable (Some (HTTPError 400 ''Bad request'')) \<and>
   snd (fst (Module_SendSMS never_done one_provider sms_request 0)) =
     Some (WrapError
             ''failed to send SMS after 3 attempts: HTTP error: status code: 400, message: Bad request''
             (HTTPError 400 ''Bad request'')) \<and>
   snd (fst (Module_SendSMS never_done one_provider sms_request 0)) \<noteq>
     Some (HTTPError 400 ''Bad request'') \<and>
   snd (fst (Module_SendSMS never_done single_attempt sms_request 0)) =
     Some (WrapError
             ''failed to send SMS after 1 attempts: maximum retry attempts reached: HTTP error: status code: 400, message: Bad request''
             (WrapError
                ''maximum retry attempts reached: HTTP error: status code: 400, message: Bad request''
                ErrMaxAttemptsReached))"
proof -
  have act: "activeProvider one_provider = Some twilio_first"
    "activeProvider single_attempt = Some twilio_first"
    by (simp_all add: one_provider_def single_attempt_def)
  have n: "RetryAttempts (config one_provider) = 3" "RetryAttempts (config single_attempt) = 1"
    by (simp_all add: one_provider_def single_attempt_def test_config_def)
  have call: "Provider.SendSMS twilio_first sms_request 0 =
              ((zero_SendSMSResponse, Some (HTTPError 400 ''Bad request'')), 1)"
    by (simp add: twilio_first_def failing_provider_def)
  have "Module_SendSMS never_done one_provider sms_request 0 =
          ((zero_SendSMSResponse,
            Some (WrapError
                    ''failed to send SMS after 3 attempts: HTTP error: status code: 400, message: Bad request''
                    (HTTPError 400 ''Bad request''))), 1)"
    using Module_SendSMS_permanent [OF act(1) _ http400_not_retriable test_requests_valid(1) call,
            of never_done]
    by (simp add: n string_eval)
  moreover have "Module_SendSMS never_done single_attempt sms_request 0 =
          ((zero_SendSMSResponse,
            Some (WrapError
                    ''failed to send SMS after 1 attempts: maximum retry attempts reached: HTTP error: status code: 400, message: Bad request''
                    (WrapError
                       ''maximum retry attempts reached: HTTP error: status code: 400, message: Bad request''
                       ErrMaxAttemptsReached))), 1)"
    using Module_SendSMS_permanent [OF act(2) _ http400_not_retriable test_requests_valid(1) call,
            of never_done]
    by (simp add: n string_eval Errorf_max_attempts_def)
  ultimately show ?thesis using call http400_not_retriable by simp
qed

text \<open>
  C8. Registering a provider whose name is already bound returns an error and leaves the
  module as it was: the name is still bound to the provider registered first, and the active
  provider is the one it was.
\<close>

theorem AddProvider_duplicate_name:
  assumes "providers m (Name p) = Some q"
  shows "fst (AddProvider m p) \<noteq> None \<and> snd (AddProvider m p) = m \<and>
         providers (snd (AddProvider m p)) (Name p) = Some q \<and>
         activeProvider (snd (AddProvider m p)) = activeProvider m"
  using assms by (simp add: AddProvider_def Let_def)

text \<open>
  The witness: a module with one provider named \<open>twilio\<close>, and a second provider of that
  name.
\<close>

theorem AddProvider_duplicate_name_witness:
  "providers one_provider (Name twilio_second) = Some twilio_first \<and>
   fst (AddProvider one_provider twilio_second) \<noteq> None \<and>
   snd (AddProvider one_provider twilio_second) = one_provider \<and>
   providers (snd (AddProvider one_provider twilio_second)) ''twilio'' = Some twilio_first \<and>
   activeProvider (snd (AddProvider one_provider twilio_second)) = Some twilio_first"
proof -
  have h: "providers one_provider (Name twilio_second) = Some twilio_first"
    by (simp add: one_provider_def twilio_second_def failing_provider_def)
  have n: "Name twilio_second = ''twilio''"
    by (simp add: twilio_second_def failing_provider_def)
  have a: "activeProvider one_provider = Some twilio_first"
    by (simp add: one_provider_def)
  from AddProvider_duplicate_name [OF h] h n a show ?thesis by simp
qed

text \<open>
  C9. After any sequence of \<open>AddProvider\<close> and \<open>SwitchProvider\<close> calls on a new module,
  the active provider, when one is set, is the provider that the registry binds to its name;
  and \<open>SwitchProvider\<close> with a name that is not registered returns an error and leaves the
  module, the active provider with it, as it was.
\<close>

theorem active_provider_stays_registered:
  assumes "NewModule (Inr cfg) = Inr m0" and "m = registry_calls m0 cs"
  shows "active_registered m \<and>
         (providers m name = None \<longrightarrow>
            fst (SwitchProvider m name) \<noteq> None \<and> snd (SwitchProvider m name) = m)"
proof -
  from assms(1) have m0: "m0 = \<lparr>config = cfg, providers = Map.empty, activeProvider = None\<rparr>"
    by (simp add: NewModule_def)
  have "keys_are_names m0" and "active_registered m0"
    unfolding m0 by (simp_all add: active_registered_def keys_are_names_def)
  from registry_calls_invariant [OF this, of cs] have "active_registered m"
    unfolding assms(2) by (rule conjunct2)
  moreover have "providers m name = None \<longrightarrow>
      fst (SwitchProvider m name) \<noteq> None \<and> snd (SwitchProvider m name) = m"
    by (simp add: SwitchProvider_def)
  ultimately show ?thesis by (rule conjI)
qed

text \<open>
  The witness: on a new module, register \<open>twilio\<close>, switch to the unknown \<open>speedsms\<close>,
  register \<open>esms\<close> (the configured default), register a second \<open>twilio\<close>, switch to
  \<open>twilio\<close>. At the end \<open>speedsms\<close> is still unknown and the active provider is the first
  \<open>twilio\<close>.
\<close>

theorem active_provider_stays_registered_witness:
  "NewModule (Inr test_config) = Inr empty_module \<and>
   active_registered (registry_calls empty_module test_calls) \<and>
   activeProvider (registry_calls empty_module test_calls) = Some twilio_first \<and>
   providers (registry_calls empty_module test_calls) ''speedsms'' = None \<and>
   fst (SwitchProvider (registry_calls empty_module test_calls) ''speedsms'') \<noteq> None \<and>
   snd (SwitchProvider (registry_calls empty_module test_calls) ''speedsms'') =
     registry_calls empty_module test_calls"
proof -
  have h1: "NewModule (Inr test_config) = (Inr empty_module :: go_error + nat Module)"
    by (simp add: NewModule_def empty_module_def)
  have h2: "providers (registry_calls empty_module test_calls) ''speedsms'' = None"
    by (simp add: registry_eval AddProvider_def SwitchProvider_def Let_def)
  have h3: "activeProvider (registry_calls empty_module test_calls) = Some twilio_first"
    by (simp add: registry_eval AddProvider_def SwitchProvider_def Let_def)
  from active_provider_stays_registered [OF h1 refl, of test_calls "''speedsms''"] h1 h2 h3
  show ?thesis by simp
qed

end
